theory Spec2Isabelle
  imports Complex_Main
begin

section \<open>GuardNet DNS filter: a shallow embedding of the request path and the feed ingestion\<close>

text \<open>
  The theory follows the Go sources of the DNS filter service: the in-memory cache
  (\<^verbatim>\<open>internal/cache/mock.go\<close>), the threat table (\<^verbatim>\<open>package db\<close>: \<^verbatim>\<open>ThreatDB\<close> and
  \<^verbatim>\<open>Connection\<close>), the DNS server (\<^verbatim>\<open>package dns\<close>) and the feed managers
  (\<^verbatim>\<open>package feeds\<close>). Effects are explicit: every function that reads the clock takes the
  instant \<open>now\<close>, every function that writes returns the new state, every Go \<^verbatim>\<open>error\<close> is a
  value. Logging and the Prometheus counters have no influence on any result modelled here
  and are left out.
\<close>

subsection \<open>Time\<close>

text \<open>
  A \<^verbatim>\<open>time.Time\<close> is the number of nanoseconds since January 1 of year 1, the instant whose
  \<^verbatim>\<open>IsZero()\<close> is true; a \<^verbatim>\<open>time.Duration\<close> is a number of nanoseconds.
  \<^verbatim>\<open>Time.Sub\<close> saturates at the largest and smallest 64-bit duration.
\<close>

type_synonym Time = int
type_synonym Duration = int

definition Second :: Duration where "Second = 1000000000"
definition Minute :: Duration where "Minute = 60 * Second"
definition Hour :: Duration where "Hour = 60 * Minute"

definition maxDuration :: Duration where "maxDuration = 2 ^ 63 - 1"
definition minDuration :: Duration where "minDuration = - (2 ^ 63)"

definition IsZero :: "Time \<Rightarrow> bool" where "IsZero t = (t = 0)"
definition After :: "Time \<Rightarrow> Time \<Rightarrow> bool" where "After t u = (u < t)"
definition Before :: "Time \<Rightarrow> Time \<Rightarrow> bool" where "Before t u = (t < u)"
definition Add :: "Time \<Rightarrow> Duration \<Rightarrow> Time" where "Add t d = t + d"

definition Sub :: "Time \<Rightarrow> Time \<Rightarrow> Duration" where
  "Sub t u = (if t - u > maxDuration then maxDuration
              else if t - u < minDuration then minDuration else t - u)"

definition Since :: "Time \<Rightarrow> Time \<Rightarrow> Duration" where
  \<comment> \<open>\<^verbatim>\<open>time.Since(t)\<close> read at the instant \<open>now\<close>\<close>
  "Since now t = Sub now t"

definition Until :: "Time \<Rightarrow> Time \<Rightarrow> Duration" where
  \<comment> \<open>\<^verbatim>\<open>time.Until(t)\<close> read at the instant \<open>now\<close>\<close>
  "Until now t = Sub t now"

subsection \<open>Strings\<close>

text \<open>
  Go strings are byte strings. On the request path the functions of package \<^verbatim>\<open>strings\<close>
  work on ASCII text: domain names reach the server in the presentation format of the DNS
  library, which escapes every byte outside printable ASCII. The feed parser reads arbitrary
  bytes; its string functions are given with their UTF-8 decoding in the section on the
  hosts-format parser.
\<close>

definition isUpper :: "char \<Rightarrow> bool" where
  "isUpper c = (65 \<le> (of_char c :: nat) \<and> (of_char c :: nat) \<le> 90)"

definition toLowerChar :: "char \<Rightarrow> char" where
  "toLowerChar c = (if isUpper c then char_of ((of_char c :: nat) + 32) else c)"

definition ToLower :: "string \<Rightarrow> string" where
  "ToLower s = map toLowerChar s"

definition HasPrefix :: "string \<Rightarrow> string \<Rightarrow> bool" where
  "HasPrefix s p = (take (length p) s = p)"

definition HasSuffix :: "string \<Rightarrow> string \<Rightarrow> bool" where
  "HasSuffix s p = (length p \<le> length s \<and> drop (length s - length p) s = p)"

definition TrimSuffix :: "string \<Rightarrow> string \<Rightarrow> string" where
  "TrimSuffix s p = (if HasSuffix s p then take (length s - length p) s else s)"

fun Contains :: "string \<Rightarrow> string \<Rightarrow> bool" where
  "Contains [] sub = (sub = [])"
| "Contains (c # s) sub = (HasPrefix (c # s) sub \<or> Contains s sub)"

text \<open>\<^verbatim>\<open>strings.Split(s, sep)\<close> for a separator of one byte, and \<^verbatim>\<open>strings.Join\<close>.\<close>

fun Split :: "string \<Rightarrow> char \<Rightarrow> string list" where
  "Split [] sep = [[]]"
| "Split (c # s) sep =
     (if c = sep then [] # Split s sep
      else (case Split s sep of [] \<Rightarrow> [[c]] | p # ps \<Rightarrow> (c # p) # ps))"

fun Join :: "string list \<Rightarrow> string \<Rightarrow> string" where
  "Join [] sep = []"
| "Join [p] sep = p"
| "Join (p # q # ps) sep = p @ sep @ Join (q # ps) sep"

subsection \<open>The response cache (\<^verbatim>\<open>MockRedisClient\<close>)\<close>

record mockValue =
  val :: string
  expiration :: Time

record MockRedisClient =
  data :: "string \<rightharpoonup> mockValue"
  closed :: bool

datatype cache_error = ClientClosed | KeyNotFound string

definition NewMockRedisClient :: MockRedisClient where
  "NewMockRedisClient = \<lparr>data = Map.empty, closed = False\<rparr>"

definition mock_Get ::
  "MockRedisClient \<Rightarrow> Time \<Rightarrow> string \<Rightarrow> (cache_error + string) \<times> MockRedisClient" where
  "mock_Get m now key =
     (if closed m then (Inl ClientClosed, m)
      else (case data m key of
              None \<Rightarrow> (Inl (KeyNotFound key), m)
            | Some v \<Rightarrow>
                if \<not> IsZero (expiration v) \<and> After now (expiration v)
                then (Inl (KeyNotFound key), m\<lparr>data := (data m)(key := None)\<rparr>)
                else (Inr (val v), m)))"

definition mock_Set ::
  "MockRedisClient \<Rightarrow> Time \<Rightarrow> string \<Rightarrow> string \<Rightarrow> Duration \<Rightarrow> cache_error option \<times> MockRedisClient" where
  "mock_Set m now key v ttl =
     (if closed m then (Some ClientClosed, m)
      else (let exp = (if ttl > 0 then Add now ttl else 0)
            in (None, m\<lparr>data := (data m)(key \<mapsto> \<lparr>val = v, expiration = exp\<rparr>)\<rparr>)))"

text \<open>
  \<^verbatim>\<open>GetTTL\<close>: \<open>-2\<close> seconds for a missing or expired key (an expired key is deleted),
  \<open>-1\<close> second for a key without expiry.
\<close>

definition mock_GetTTL ::
  "MockRedisClient \<Rightarrow> Time \<Rightarrow> string \<Rightarrow> (cache_error + Duration) \<times> MockRedisClient" where
  "mock_GetTTL m now key =
     (if closed m then (Inl ClientClosed, m)
      else (case data m key of
              None \<Rightarrow> (Inr (- 2 * Second), m)
            | Some v \<Rightarrow>
                if IsZero (expiration v) then (Inr (- 1 * Second), m)
                else (let ttl = Until now (expiration v)
                      in if ttl \<le> 0
                         then (Inr (- 2 * Second), m\<lparr>data := (data m)(key := None)\<rparr>)
                         else (Inr ttl, m))))"

text \<open>\<^verbatim>\<open>SetNX\<close>: the key is taken when it exists and has not expired.\<close>

definition mock_SetNX ::
  "MockRedisClient \<Rightarrow> Time \<Rightarrow> string \<Rightarrow> string \<Rightarrow> Duration \<Rightarrow> (cache_error + bool) \<times> MockRedisClient" where
  "mock_SetNX m now key v ttl =
     (if closed m then (Inl ClientClosed, m)
      else (case data m key of
              Some existing \<Rightarrow>
                if IsZero (expiration existing) \<or> Before now (expiration existing)
                then (Inr False, m)
                else (let exp = (if ttl > 0 then Add now ttl else 0)
                      in (Inr True, m\<lparr>data := (data m)(key \<mapsto> \<lparr>val = v, expiration = exp\<rparr>)\<rparr>))
            | None \<Rightarrow>
                (let exp = (if ttl > 0 then Add now ttl else 0)
                 in (Inr True, m\<lparr>data := (data m)(key \<mapsto> \<lparr>val = v, expiration = exp\<rparr>)\<rparr>))))"

subsection \<open>The threat table (\<^verbatim>\<open>ThreatDB\<close>, \<^verbatim>\<open>Connection\<close>)\<close>

text \<open>
  Table \<^verbatim>\<open>threat_domains\<close> declares \<^verbatim>\<open>domain\<close> \<^verbatim>\<open>UNIQUE NOT NULL\<close>, so the table is a
  partial map from the domain to its row. Confidence scores are the two-digit decimals of
  the schema (\<^verbatim>\<open>DECIMAL(3,2)\<close>), read here as real numbers. A query can fail (connection
  lost, the five-second deadline): \<open>unreachable\<close> tells for which domains the query fails.
  A write goes through the steps of a transaction, each of which can fail in the driver or
  the server: \<open>faults\<close> tells which steps fail. \<open>StepRow d\<close> is the \<^verbatim>\<open>Exec\<close> that hands the
  row of domain \<open>d\<close> to the \<^verbatim>\<open>COPY\<close> statement; \<open>StepCopy\<close> is the final \<^verbatim>\<open>Exec\<close> failing for
  another reason than the \<^verbatim>\<open>UNIQUE\<close> constraint; \<open>StepExec\<close> is a single statement run outside
  a transaction.
\<close>

record threat_row =
  domain :: string
  threat_type :: string
  confidence_score :: real
  source :: string
  created_at :: Time
  updated_at :: Time

datatype tx_step =
  StepBegin | StepPrepare | StepRow string | StepCopy | StepClose | StepCommit | StepExec

record ThreatDB =
  threat_domains :: "string \<rightharpoonup> threat_row"
  unreachable :: "string \<Rightarrow> bool"
  faults :: "tx_step \<Rightarrow> bool"

datatype db_error = QueryFailed | UniqueViolation | StepFailed tx_step

definition days30 :: Duration where "days30 = 30 * 24 * Hour"

text \<open>
  \<^verbatim>\<open>SELECT threat_type, confidence_score FROM threat_domains
  WHERE domain = $1 AND created_at > NOW() - INTERVAL '30 days'
  ORDER BY confidence_score DESC LIMIT 1\<close>:
  with a unique domain there is at most one candidate row. The interval is taken as thirty
  days of 24 hours.
\<close>

definition IsThreatDomain :: "ThreatDB \<Rightarrow> Time \<Rightarrow> string \<Rightarrow> db_error + (bool \<times> string \<times> real)" where
  "IsThreatDomain tdb now d =
     (if unreachable tdb d then Inl QueryFailed
      else (case threat_domains tdb d of
              None \<Rightarrow> Inr (False, [], 0)
            | Some r \<Rightarrow>
                if created_at r > now - days30
                then Inr (True, threat_type r, confidence_score r)
                else Inr (False, [], 0)))"

definition CheckThreatDomain :: "ThreatDB \<Rightarrow> Time \<Rightarrow> string \<Rightarrow> db_error + string" where
  "CheckThreatDomain tdb now d =
     (case IsThreatDomain tdb now d of
        Inl e \<Rightarrow> Inl e
      | Inr (isThreat, threatType, confidence) \<Rightarrow>
          if isThreat \<and> confidence \<ge> 0.70 then Inr threatType else Inr [])"

subsection \<open>The DNS server\<close>

text \<open>
  A DNS message with the fields the handler touches. \<^verbatim>\<open>SetReply\<close> is the DNS library's:
  it copies the request id, marks the message as a response with \<^verbatim>\<open>RcodeSuccess\<close> and
  puts the first question of the request, when there is one, in the question section.
\<close>

type_synonym RR = string

record Question =
  Name :: string
  Qtype :: nat

record Msg =
  MsgId :: nat
  Response :: bool
  Authoritative :: bool
  RecursionAvailable :: bool
  Rcode :: nat
  Questions :: "Question list"
  Answer :: "RR list"

definition RcodeSuccess :: nat where "RcodeSuccess = 0"
definition RcodeServerFailure :: nat where "RcodeServerFailure = 2"
definition RcodeNameError :: nat where "RcodeNameError = 3"

definition SetReply :: "Msg \<Rightarrow> Msg" where
  "SetReply request =
     \<lparr>MsgId = MsgId request, Response = True, Authoritative = False,
      RecursionAvailable = False, Rcode = RcodeSuccess,
      Questions = take 1 (Questions request), Answer = []\<rparr>"

record Server =
  database :: ThreatDB
  cache :: MockRedisClient
  upstreams :: "string list"

text \<open>
  The server's cache is the Redis client, whose \<^verbatim>\<open>Get\<close> and \<^verbatim>\<open>Set\<close> pass the call on to the
  Redis server; the in-process \<^verbatim>\<open>MockRedisClient\<close> of the sources, which the local deployments
  use in its place, gives the key-value store its meaning here.
  \<^verbatim>\<open>shouldBlockDomain\<close> returns the verdict, the threat type and the error, and the cache
  as the calls to \<^verbatim>\<open>Get\<close> and \<^verbatim>\<open>Set\<close> leave it. The parent loop walks the suffixes
  \<^verbatim>\<open>strings.Join(parts[i:], ".")\<close> for \<open>i\<close> from 1 below \<^verbatim>\<open>len(parts)\<close>.
\<close>

definition parentDomains :: "string \<Rightarrow> string list" where
  "parentDomains d =
     (let parts = Split d (CHR ''.'')
      in map (\<lambda>i. Join (drop i parts) ''.'') [1 ..< length parts])"

fun parentLoop :: "ThreatDB \<Rightarrow> Time \<Rightarrow> string list \<Rightarrow> string option" where
  "parentLoop tdb now [] = None"
| "parentLoop tdb now (parentDomain # rest) =
     (case CheckThreatDomain tdb now parentDomain of
        Inl e \<Rightarrow> parentLoop tdb now rest
      | Inr parentThreatType \<Rightarrow>
          if parentThreatType \<noteq> [] then Some parentThreatType
          else parentLoop tdb now rest)"

definition cacheKey :: "string \<Rightarrow> string" where
  "cacheKey d = ''domain:'' @ d"

definition checkTable ::
  "ThreatDB \<Rightarrow> MockRedisClient \<Rightarrow> Time \<Rightarrow> string \<Rightarrow> (bool \<times> string \<times> db_error option) \<times> MockRedisClient" where
  \<comment> \<open>\<^verbatim>\<open>shouldBlockDomain\<close> from the comment "Check against threat database" on\<close>
  "checkTable tdb c now d =
     (case CheckThreatDomain tdb now d of
        Inl e \<Rightarrow> ((False, [], Some e), c)
      | Inr threatType \<Rightarrow>
          if threatType \<noteq> []
          then ((True, threatType, None), snd (mock_Set c now (cacheKey d) ''blocked'' Hour))
          else (case parentLoop tdb now (parentDomains d) of
                  Some parentThreatType \<Rightarrow>
                    ((True, parentThreatType, None), snd (mock_Set c now (cacheKey d) ''blocked'' Hour))
                | None \<Rightarrow>
                    ((False, [], None), snd (mock_Set c now (cacheKey d) ''allowed'' (30 * Minute)))))"

definition shouldBlockDomain ::
  "Server \<Rightarrow> Time \<Rightarrow> string \<Rightarrow> (bool \<times> string \<times> db_error option) \<times> MockRedisClient" where
  "shouldBlockDomain s now d =
     (case mock_Get (cache s) now (cacheKey d) of
        (Inr cached, c) \<Rightarrow>
          if cached \<noteq> [] \<and> cached = ''blocked'' then ((True, ''cached'', None), c)
          else if cached \<noteq> [] \<and> cached = ''allowed'' then ((False, [], None), c)
          else checkTable (database s) c now d
      | (Inl e, c) \<Rightarrow> checkTable (database s) c now d)"

text \<open>
  The upstream resolvers are the environment: \<open>exch upstream domain qtype\<close> is the result
  of \<^verbatim>\<open>client.Exchange\<close> for the query built from \<^verbatim>\<open>dns.Fqdn(domain)\<close> and the question
  type, an error or the response message. \<^verbatim>\<open>forwardToUpstream\<close> returns an error, or the
  answer records, \<open>None\<close> standing for the \<^verbatim>\<open>nil\<close> slice.
\<close>

datatype forward_error = AllUpstreamsFailed

type_synonym exchange = "string \<Rightarrow> string \<Rightarrow> nat \<Rightarrow> unit + Msg"

fun forwardLoop :: "exchange \<Rightarrow> string \<Rightarrow> nat \<Rightarrow> string list \<Rightarrow> forward_error + RR list option" where
  "forwardLoop exch d qt [] = Inl AllUpstreamsFailed"
| "forwardLoop exch d qt (upstream # rest) =
     (case exch upstream d qt of
        Inl err \<Rightarrow> forwardLoop exch d qt rest
      | Inr response \<Rightarrow>
          if Rcode response = RcodeSuccess \<and> length (Answer response) > 0
          then Inr (Some (Answer response))
          else if Rcode response = RcodeNameError then Inr None
          else forwardLoop exch d qt rest)"

definition forwardToUpstream :: "Server \<Rightarrow> exchange \<Rightarrow> Question \<Rightarrow> string \<Rightarrow> forward_error + RR list option" where
  "forwardToUpstream s exch question d = forwardLoop exch d (Qtype question) (upstreams s)"

text \<open>
  The loop over the questions of \<^verbatim>\<open>handleDNSRequest\<close>: the message under construction and
  the cache are threaded through; both \<^verbatim>\<open>break\<close>s end the recursion. One request is
  handled at one instant \<open>now\<close>.
\<close>

fun questionLoop :: "Server \<Rightarrow> exchange \<Rightarrow> Time \<Rightarrow> Msg \<Rightarrow> Question list \<Rightarrow> Msg \<times> Server" where
  "questionLoop s exch now msg [] = (msg, s)"
| "questionLoop s exch now msg (question # rest) =
     (let d = ToLower (TrimSuffix (Name question) ''.'');
          ((blocked, threatType, err), c) = shouldBlockDomain s now d;
          s' = s\<lparr>cache := c\<rparr>
      in if blocked then (msg\<lparr>Rcode := RcodeNameError\<rparr>, s')
         else (case forwardToUpstream s' exch question d of
                 Inl e \<Rightarrow> (msg\<lparr>Rcode := RcodeServerFailure\<rparr>, s')
               | Inr None \<Rightarrow> questionLoop s' exch now msg rest
               | Inr (Some answer) \<Rightarrow>
                   questionLoop s' exch now (msg\<lparr>Answer := Answer msg @ answer\<rparr>) rest))"

definition initialReply :: "Msg \<Rightarrow> Msg" where
  \<comment> \<open>the response message as the handler creates it, before the loop\<close>
  "initialReply r = (SetReply r)\<lparr>Authoritative := False, RecursionAvailable := True\<rparr>"

definition handleDNSRequest :: "Server \<Rightarrow> exchange \<Rightarrow> Time \<Rightarrow> Msg \<Rightarrow> Msg \<times> Server" where
  "handleDNSRequest s exch now r = questionLoop s exch now (initialReply r) (Questions r)"

text \<open>
  What the forwarder's contract calls a settling outcome of one upstream: a response with
  \<^verbatim>\<open>RcodeSuccess\<close> and at least one answer record, or a response with
  \<^verbatim>\<open>RcodeNameError\<close>; and the answer the forwarder hands back for it.
\<close>

definition settles :: "unit + Msg \<Rightarrow> bool" where
  "settles out =
     (case out of
        Inl err \<Rightarrow> False
      | Inr response \<Rightarrow>
          (Rcode response = RcodeSuccess \<and> Answer response \<noteq> [])
          \<or> Rcode response = RcodeNameError)"

definition settledAnswer :: "unit + Msg \<Rightarrow> RR list option" where
  "settledAnswer out =
     (case out of
        Inl err \<Rightarrow> None
      | Inr response \<Rightarrow>
          if Rcode response = RcodeNameError then None else Some (Answer response))"

subsection \<open>Sample data\<close>

text \<open>
  An instant in 2025, the two default upstream resolvers, and a threat table holding the
  row \<^verbatim>\<open>doubleclick.net\<close> of the schema's seed data, created one day before \<open>t0\<close>, and a
  row \<^verbatim>\<open>evil.example\<close> created forty days and updated one day before \<open>t0\<close>.
\<close>

definition t0 :: Time where "t0 = 63900000000 * Second"

definition sampleTable :: "string \<rightharpoonup> threat_row" where
  "sampleTable =
     [''doubleclick.net'' \<mapsto>
        \<lparr>domain = ''doubleclick.net'', threat_type = ''ads'', confidence_score = 0.90,
         source = ''easylist'', created_at = t0 - 24 * Hour, updated_at = t0 - 24 * Hour\<rparr>,
      ''evil.example'' \<mapsto>
        \<lparr>domain = ''evil.example'', threat_type = ''malware'', confidence_score = 0.90,
         source = ''urlhaus'', created_at = t0 - 40 * 24 * Hour, updated_at = t0 - 24 * Hour\<rparr>]"

definition sampleDB :: ThreatDB where
  "sampleDB =
     \<lparr>threat_domains = sampleTable, unreachable = (\<lambda>d. False), faults = (\<lambda>st. False)\<rparr>"

definition downDB :: ThreatDB where
  \<comment> \<open>the same table behind a lost connection\<close>
  "downDB =
     \<lparr>threat_domains = sampleTable, unreachable = (\<lambda>d. True), faults = (\<lambda>st. True)\<rparr>"

definition sampleServer :: Server where
  "sampleServer =
     \<lparr>database = sampleDB, cache = NewMockRedisClient,
      upstreams = [''1.1.1.1:53'', ''8.8.8.8:53'']\<rparr>"

definition query :: "nat \<Rightarrow> string list \<Rightarrow> Msg" where
  \<comment> \<open>a request with the given id and one type-A question for each name\<close>
  "query i names =
     \<lparr>MsgId = i, Response = False, Authoritative = False, RecursionAvailable = False,
      Rcode = RcodeSuccess, Questions = map (\<lambda>n. \<lparr>Name = n, Qtype = 1\<rparr>) names, Answer = []\<rparr>"

definition reply :: "nat \<Rightarrow> RR list \<Rightarrow> Msg" where
  \<comment> \<open>an upstream response with the given rcode and answer records\<close>
  "reply rc rrs =
     \<lparr>MsgId = 0, Response = True, Authoritative = False, RecursionAvailable = True,
      Rcode = rc, Questions = [], Answer = rrs\<rparr>"

subsection \<open>Writing the threat table\<close>

text \<open>
  A feed entry (\<^verbatim>\<open>feeds.ThreatEntry\<close>) and the row both writers store for it. Both writers
  put the instant of the call in \<^verbatim>\<open>created_at\<close> and \<^verbatim>\<open>updated_at\<close>.
\<close>

record ThreatEntry =
  Domain :: string
  ThreatType :: string
  Confidence :: real
  Source :: string
  FirstSeen :: Time
  LastSeen :: Time
  IsActive :: bool
  Metadata :: "(string \<times> string) list"

definition rowOf :: "Time \<Rightarrow> ThreatEntry \<Rightarrow> threat_row" where
  "rowOf now entry =
     \<lparr>domain = Domain entry, threat_type = ThreatType entry,
      confidence_score = Confidence entry, source = Source entry,
      created_at = now, updated_at = now\<rparr>"

text \<open>
  \<^verbatim>\<open>BatchInsertThreats\<close> sends the rows with one \<^verbatim>\<open>COPY threat_domains (...) FROM STDIN\<close>
  inside a transaction. \<^verbatim>\<open>COPY\<close> only inserts: a row whose domain is already in the
  table, or earlier in the same batch, violates the \<^verbatim>\<open>UNIQUE\<close> constraint, the statement
  fails as a whole, the function returns the error and the deferred \<^verbatim>\<open>Rollback\<close> leaves
  the table as it was. The function follows the source step by step: an empty batch returns
  at once; \<^verbatim>\<open>BeginTx\<close> and \<^verbatim>\<open>PrepareContext\<close> can fail; a row whose \<^verbatim>\<open>Exec\<close> fails is
  logged and left out; the final \<^verbatim>\<open>Exec\<close>, \<^verbatim>\<open>Close\<close> and \<^verbatim>\<open>Commit\<close> can fail. Every error
  return leaves the table unchanged.
\<close>

fun copyIn :: "(string \<rightharpoonup> threat_row) \<Rightarrow> threat_row list \<Rightarrow> db_error + (string \<rightharpoonup> threat_row)" where
  "copyIn tbl [] = Inr tbl"
| "copyIn tbl (r # rs) =
     (case tbl (domain r) of
        Some existing \<Rightarrow> Inl UniqueViolation
      | None \<Rightarrow> copyIn (tbl(domain r \<mapsto> r)) rs)"

definition BatchInsertThreats :: "ThreatDB \<Rightarrow> Time \<Rightarrow> ThreatEntry list \<Rightarrow> db_error option \<times> ThreatDB" where
  "BatchInsertThreats tdb now entries =
     (if length entries = 0 then (None, tdb)
      else if faults tdb StepBegin then (Some (StepFailed StepBegin), tdb)
      else if faults tdb StepPrepare then (Some (StepFailed StepPrepare), tdb)
      else (let sent = filter (\<lambda>entry. \<not> faults tdb (StepRow (Domain entry))) entries
            in if faults tdb StepCopy then (Some (StepFailed StepCopy), tdb)
               else (case copyIn (threat_domains tdb) (map (rowOf now) sent) of
                       Inl e \<Rightarrow> (Some e, tdb)
                     | Inr tbl \<Rightarrow>
                         if faults tdb StepClose then (Some (StepFailed StepClose), tdb)
                         else if faults tdb StepCommit then (Some (StepFailed StepCommit), tdb)
                         else (None, tdb\<lparr>threat_domains := tbl\<rparr>))))"

text \<open>
  \<^verbatim>\<open>UpdateThreatEntry\<close>: \<^verbatim>\<open>INSERT ... ON CONFLICT (domain) DO UPDATE SET\<close> the threat
  type, \<^verbatim>\<open>GREATEST\<close> of the two confidence scores, the source and \<^verbatim>\<open>updated_at\<close>. The
  function gives the table after the statement has run; a statement that fails returns its
  error and changes nothing.
\<close>

definition UpdateThreatEntry :: "ThreatDB \<Rightarrow> Time \<Rightarrow> ThreatEntry \<Rightarrow> ThreatDB" where
  "UpdateThreatEntry tdb now entry =
     (case threat_domains tdb (Domain entry) of
        None \<Rightarrow> tdb\<lparr>threat_domains := (threat_domains tdb)(Domain entry \<mapsto> rowOf now entry)\<rparr>
      | Some old \<Rightarrow>
          tdb\<lparr>threat_domains := (threat_domains tdb)(Domain entry \<mapsto>
                 old\<lparr>threat_type := ThreatType entry,
                     confidence_score := max (confidence_score old) (Confidence entry),
                     source := Source entry,
                     updated_at := now\<rparr>)\<rparr>)"

text \<open>
  \<^verbatim>\<open>CleanupOldThreats\<close>: \<^verbatim>\<open>DELETE FROM threat_domains WHERE updated_at < $1\<close> with the cutoff
  \<^verbatim>\<open>time.Now().Add(-maxAge)\<close>; the updater calls it with thirty days.
\<close>

definition CleanupOldThreats ::
  "ThreatDB \<Rightarrow> Time \<Rightarrow> Duration \<Rightarrow> db_error option \<times> ThreatDB" where
  "CleanupOldThreats tdb now maxAge =
     (let cutoff = Add now (- maxAge)
      in if faults tdb StepExec then (Some (StepFailed StepExec), tdb)
         else (None,
               tdb\<lparr>threat_domains :=
                     (\<lambda>d. case threat_domains tdb d of
                            None \<Rightarrow> None
                          | Some r \<Rightarrow> if updated_at r < cutoff then None else Some r)\<rparr>))"

definition emptyDB :: ThreatDB where
  "emptyDB =
     \<lparr>threat_domains = Map.empty, unreachable = (\<lambda>d. False), faults = (\<lambda>st. False)\<rparr>"

definition sighting :: "string \<Rightarrow> string \<Rightarrow> real \<Rightarrow> string \<Rightarrow> ThreatEntry" where
  \<comment> \<open>sample data: an entry as a feed parser emits it at \<open>t0\<close>\<close>
  "sighting d ty conf src =
     \<lparr>Domain = d, ThreatType = ty, Confidence = conf, Source = src,
      FirstSeen = t0, LastSeen = t0, IsActive = True, Metadata = []\<rparr>"

subsection \<open>Feed scheduling\<close>

text \<open>
  \<^verbatim>\<open>ThreatFeed\<close> and \<^verbatim>\<open>AdBlockFeed\<close> share the fields the scheduling loop reads.
  \<^verbatim>\<open>UpdateAllFeeds\<close> and \<^verbatim>\<open>UpdateAllAdBlockFeeds\<close> are the same loop:
  \<^verbatim>\<open>for _, feed := range fm.feeds\<close> binds \<^verbatim>\<open>feed\<close> to a copy of the slice element, and
  \<^verbatim>\<open>feed.LastUpdated = time.Now()\<close> assigns to that copy; the slice held by the manager is
  not written. The fetch (\<^verbatim>\<open>updateFeed\<close>: HTTP GET and parse) is the environment \<open>upd\<close>.
  The loop returns the entries collected and the names of the feeds it fetched, in order
  (the log lines "Updating threat feed").
\<close>

record Feed =
  FeedName :: string
  URL :: string
  UpdateFreq :: Duration
  LastUpdated :: Time
  IsEnabled :: bool

record ThreatFeed = Feed +
  Type :: string
  RequiresAuth :: bool

record AdBlockFeed = Feed +
  Format :: string
  Description :: string

record FeedManager =
  feeds :: "ThreatFeed list"

record AdBlockManager =
  adFeeds :: "AdBlockFeed list"

fun updateLoop ::
  "('a Feed_scheme \<Rightarrow> unit + ThreatEntry list) \<Rightarrow> Time \<Rightarrow> 'a Feed_scheme list
     \<Rightarrow> ThreatEntry list \<times> string list \<Rightarrow> ThreatEntry list \<times> string list" where
  "updateLoop upd now [] (allEntries, fetched) = (allEntries, fetched)"
| "updateLoop upd now (feed # rest) (allEntries, fetched) =
     (if \<not> IsEnabled feed then updateLoop upd now rest (allEntries, fetched)
      else if Since now (LastUpdated feed) < UpdateFreq feed
      then updateLoop upd now rest (allEntries, fetched)
      else (case upd feed of
              Inl err \<Rightarrow> updateLoop upd now rest (allEntries, fetched @ [FeedName feed])
            | Inr entries \<Rightarrow>
                (let feed = feed\<lparr>LastUpdated := now\<rparr>
                 in updateLoop upd now rest (allEntries @ entries, fetched @ [FeedName feed]))))"

definition UpdateAllFeeds ::
  "FeedManager \<Rightarrow> (ThreatFeed \<Rightarrow> unit + ThreatEntry list) \<Rightarrow> Time
     \<Rightarrow> (ThreatEntry list \<times> string list) \<times> FeedManager" where
  "UpdateAllFeeds fm upd now = (updateLoop upd now (feeds fm) ([], []), fm)"

definition UpdateAllAdBlockFeeds ::
  "AdBlockManager \<Rightarrow> (AdBlockFeed \<Rightarrow> unit + ThreatEntry list) \<Rightarrow> Time
     \<Rightarrow> (ThreatEntry list \<times> string list) \<times> AdBlockManager" where
  "UpdateAllAdBlockFeeds abm upd now = (updateLoop upd now (adFeeds abm) ([], []), abm)"

definition NewFeedManager :: FeedManager where
  "NewFeedManager =
     \<lparr>feeds =
        [\<lparr>FeedName = ''URLhaus'', URL = ''https://urlhaus.abuse.ch/downloads/json/'',
          UpdateFreq = 5 * Minute, LastUpdated = 0, IsEnabled = True,
          Type = ''json'', RequiresAuth = False\<rparr>,
         \<lparr>FeedName = ''OpenPhish'', URL = ''https://openphish.com/feed.txt'',
          UpdateFreq = 30 * Minute, LastUpdated = 0, IsEnabled = True,
          Type = ''txt'', RequiresAuth = False\<rparr>,
         \<lparr>FeedName = ''PhishTank'', URL = ''http://data.phishtank.com/data/online-valid.json'',
          UpdateFreq = 60 * Minute, LastUpdated = 0, IsEnabled = False,
          Type = ''json'', RequiresAuth = False\<rparr>]\<rparr>"

definition fetchOK :: "ThreatFeed \<Rightarrow> unit + ThreatEntry list" where
  \<comment> \<open>sample environment: every fetch succeeds with one entry\<close>
  "fetchOK feed = Inr [sighting ''evil.example'' ''malware'' 0.90 (ToLower (FeedName feed))]"

subsection \<open>The hosts-format parser\<close>

text \<open>
  A feed body is any byte string, and \<^verbatim>\<open>strings.TrimSpace\<close>, \<^verbatim>\<open>strings.Fields\<close> and
  \<^verbatim>\<open>strings.ToLower\<close> read it as UTF-8. \<open>DecodeRune\<close> is \<^verbatim>\<open>utf8.DecodeRuneInString\<close>: the
  code point and the width of the first rune, \<^verbatim>\<open>RuneError\<close> with width 1 for a byte that
  starts no valid encoding (a stray continuation byte, a truncated or overlong sequence, a
  surrogate, a value above U+10FFFF). \<open>decodeRunes\<close> is the iteration
  \<^verbatim>\<open>for i, r := range s\<close>: the runes of the string in order, each with its bytes.
\<close>

definition RuneError :: int where "RuneError = 65533"

definition contByte :: "char \<Rightarrow> bool" where
  "contByte c = (128 \<le> (of_char c :: int) \<and> (of_char c :: int) \<le> 191)"

definition secondLo :: "int \<Rightarrow> int" where
  \<comment> \<open>the least second byte accepted after the first byte \<open>b0\<close>\<close>
  "secondLo b0 = (if b0 = 224 then 160 else if b0 = 240 then 144 else 128)"

definition secondHi :: "int \<Rightarrow> int" where
  "secondHi b0 = (if b0 = 237 then 159 else if b0 = 244 then 143 else 191)"

fun DecodeRune :: "string \<Rightarrow> int \<times> nat" where
  "DecodeRune [] = (RuneError, 0)"
| "DecodeRune (c0 # rest) =
     (let b0 = (of_char c0 :: int)
      in if b0 < 128 then (b0, 1)
         else if 194 \<le> b0 \<and> b0 \<le> 223 then
           (case rest of
              c1 # _ \<Rightarrow>
                if contByte c1 then ((b0 mod 32) * 64 + (of_char c1 :: int) mod 64, 2)
                else (RuneError, 1)
            | [] \<Rightarrow> (RuneError, 1))
         else if 224 \<le> b0 \<and> b0 \<le> 239 then
           (case rest of
              c1 # c2 # _ \<Rightarrow>
                if secondLo b0 \<le> (of_char c1 :: int) \<and> (of_char c1 :: int) \<le> secondHi b0
                   \<and> contByte c2
                then ((b0 mod 16) * 4096 + ((of_char c1 :: int) mod 64) * 64
                      + (of_char c2 :: int) mod 64, 3)
                else (RuneError, 1)
            | _ \<Rightarrow> (RuneError, 1))
         else if 240 \<le> b0 \<and> b0 \<le> 244 then
           (case rest of
              c1 # c2 # c3 # _ \<Rightarrow>
                if secondLo b0 \<le> (of_char c1 :: int) \<and> (of_char c1 :: int) \<le> secondHi b0
                   \<and> contByte c2 \<and> contByte c3
                then ((b0 mod 8) * 262144 + ((of_char c1 :: int) mod 64) * 4096
                      + ((of_char c2 :: int) mod 64) * 64 + (of_char c3 :: int) mod 64, 4)
                else (RuneError, 1)
            | _ \<Rightarrow> (RuneError, 1))
         else (RuneError, 1))"

fun decodeRunes :: "string \<Rightarrow> (int \<times> string) list" where
  "decodeRunes [] = []"
| "decodeRunes (c # cs) =
     (fst (DecodeRune (c # cs)), take (snd (DecodeRune (c # cs))) (c # cs))
       # decodeRunes (drop (snd (DecodeRune (c # cs)) - 1) cs)"

text \<open>
  \<^verbatim>\<open>unicode.IsSpace\<close>: tab to carriage return, space, U+0085, U+00A0, U+1680, U+2000 to
  U+200A, U+2028, U+2029, U+202F, U+205F and U+3000.
\<close>

definition IsSpace :: "int \<Rightarrow> bool" where
  "IsSpace r =
     ((9 \<le> r \<and> r \<le> 13) \<or> r = 32 \<or> r = 133 \<or> r = 160 \<or> r = 5760
      \<or> (8192 \<le> r \<and> r \<le> 8202) \<or> r = 8232 \<or> r = 8233 \<or> r = 8239 \<or> r = 8287
      \<or> r = 12288)"

text \<open>
  \<^verbatim>\<open>strings.TrimSpace\<close> removes the leading and the trailing white-space runes. Its byte
  loops for ASCII and its calls to \<^verbatim>\<open>TrimFunc\<close> and \<^verbatim>\<open>TrimRightFunc\<close> come to this: an ASCII
  byte is always a rune of its own, and the last rune found from the end
  (\<^verbatim>\<open>utf8.DecodeLastRuneInString\<close>) is the last rune of the iteration from the front,
  because a byte that starts an encoding is never taken as a continuation byte.
  \<^verbatim>\<open>strings.Fields\<close> (\<^verbatim>\<open>FieldsFunc\<close> with \<^verbatim>\<open>unicode.IsSpace\<close>, of which the ASCII loop is the
  special case) cuts the string at the white-space runes and returns the non-empty pieces.
\<close>

definition TrimSpace :: "string \<Rightarrow> string" where
  "TrimSpace s =
     concat (map snd
       (rev (dropWhile (\<lambda>(r, bs). IsSpace r)
          (rev (dropWhile (\<lambda>(r, bs). IsSpace r) (decodeRunes s))))))"

fun fieldsFrom :: "(int \<times> string) list \<Rightarrow> string \<Rightarrow> string list" where
  "fieldsFrom [] cur = (if cur = [] then [] else [cur])"
| "fieldsFrom ((r, bs) # rest) cur =
     (if IsSpace r then (if cur = [] then fieldsFrom rest [] else cur # fieldsFrom rest [])
      else fieldsFrom rest (cur @ bs))"

definition Fields :: "string \<Rightarrow> string list" where
  "Fields s = fieldsFrom (decodeRunes s) []"

definition isASCII :: "string \<Rightarrow> bool" where
  "isASCII s = list_all (\<lambda>c. (of_char c :: nat) < 128) s"

text \<open>
  \<^verbatim>\<open>strings.ToLower\<close> in full. A string of ASCII bytes takes the ASCII branch, which is
  \<open>ToLower\<close> above; any other string is \<^verbatim>\<open>strings.Map(unicode.ToLower, s)\<close>: every rune
  is replaced by the encoding of its lower case, and a byte that decodes to \<^verbatim>\<open>RuneError\<close>
  by the encoding of what \<^verbatim>\<open>RuneError\<close> maps to. \<open>EncodeRune\<close> is \<^verbatim>\<open>utf8.AppendRune\<close>.
  \<^verbatim>\<open>unicode.ToLower\<close> maps the ASCII capitals itself and looks every rune above U+007F up
  in the case table of package \<^verbatim>\<open>unicode\<close>. The table is not part of the sources and is the
  parameter \<open>tbl\<close> of everything that lowercases feed text.
\<close>

definition EncodeRune :: "int \<Rightarrow> string" where
  "EncodeRune r =
     (if 0 \<le> r \<and> r < 128 then [char_of r]
      else if 0 \<le> r \<and> r < 2048 then [char_of (192 + r div 64), char_of (128 + r mod 64)]
      else if r < 0 \<or> r > 1114111 \<or> (55296 \<le> r \<and> r \<le> 57343)
           then [char_of (239 :: int), char_of (191 :: int), char_of (189 :: int)]
      else if r < 65536
           then [char_of (224 + r div 4096), char_of (128 + (r div 64) mod 64),
                 char_of (128 + r mod 64)]
      else [char_of (240 + r div 262144), char_of (128 + (r div 4096) mod 64),
            char_of (128 + (r div 64) mod 64), char_of (128 + r mod 64)])"

definition unicodeToLower :: "(int \<Rightarrow> int) \<Rightarrow> int \<Rightarrow> int" where
  "unicodeToLower tbl r =
     (if r \<le> 127 then (if 65 \<le> r \<and> r \<le> 90 then r + 32 else r) else tbl r)"

definition MapRunes :: "(int \<Rightarrow> int) \<Rightarrow> string \<Rightarrow> string" where
  \<comment> \<open>\<^verbatim>\<open>strings.Map\<close>: a rune mapped to a negative value is dropped\<close>
  "MapRunes mapping s =
     concat (map (\<lambda>(r, bs). if mapping r \<ge> 0 then EncodeRune (mapping r) else [])
       (decodeRunes s))"

definition ToLowerUnicode :: "(int \<Rightarrow> int) \<Rightarrow> string \<Rightarrow> string" where
  "ToLowerUnicode tbl s =
     (if isASCII s then ToLower s else MapRunes (unicodeToLower tbl) s)"

definition caseFragment :: "int \<Rightarrow> int" where
  \<comment> \<open>sample data: the case table on the Latin-1 capitals, U+0130 and the Kelvin sign\<close>
  "caseFragment r =
     (if (192 \<le> r \<and> r \<le> 214) \<or> (216 \<le> r \<and> r \<le> 222) then r + 32
      else if r = 304 then 105
      else if r = 8490 then 107
      else r)"

text \<open>
  \<^verbatim>\<open>isValidDomain\<close>: at most 255 bytes, and the regular expression
  \<^verbatim>\<open>^L(\.L)*$\<close> with \<^verbatim>\<open>L = [a-zA-Z0-9]([a-zA-Z0-9\-]{0,61}[a-zA-Z0-9])?\<close>: the labels between
  the dots each have 1 to 63 characters, letters, digits or hyphens, the first and the last
  a letter or a digit.
\<close>

definition isAlnum :: "char \<Rightarrow> bool" where
  "isAlnum c =
     ((48 \<le> (of_char c :: nat) \<and> (of_char c :: nat) \<le> 57)
      \<or> (65 \<le> (of_char c :: nat) \<and> (of_char c :: nat) \<le> 90)
      \<or> (97 \<le> (of_char c :: nat) \<and> (of_char c :: nat) \<le> 122))"

definition validLabel :: "string \<Rightarrow> bool" where
  "validLabel l =
     (l \<noteq> [] \<and> length l \<le> 63 \<and> isAlnum (hd l) \<and> isAlnum (last l)
      \<and> list_all (\<lambda>c. isAlnum c \<or> c = CHR ''-'') l)"

definition isValidDomain :: "string \<Rightarrow> bool" where
  "isValidDomain d =
     (if length d = 0 \<or> length d > 255 then False
      else list_all validLabel (Split d (CHR ''.'')))"

definition feedSource :: "(int \<Rightarrow> int) \<Rightarrow> string \<Rightarrow> string" where
  \<comment> \<open>\<^verbatim>\<open>strings.ToLower(strings.Replace(feed.Name, " ", "_", -1))\<close>\<close>
  "feedSource tbl n = ToLowerUnicode tbl (map (\<lambda>c. if c = CHR '' '' then CHR ''_'' else c) n)"

text \<open>
  One round of the scanner loop of \<^verbatim>\<open>parseHostsFormat\<close>, up to the \<^verbatim>\<open>append\<close>: the entry
  the line produces, or \<open>None\<close> where the loop \<^verbatim>\<open>continue\<close>s.
\<close>

definition hostsLine :: "(int \<Rightarrow> int) \<Rightarrow> string \<Rightarrow> Time \<Rightarrow> string \<Rightarrow> ThreatEntry option" where
  "hostsLine tbl feedName now raw =
     (let line = TrimSpace raw
      in if line = [] \<or> HasPrefix line ''#'' then None
         else (let parts = Fields line
               in if length parts < 2 then None
                  else (let d = ToLowerUnicode tbl (parts ! 1)
                        in if \<not> isValidDomain d \<or> d = ''localhost'' \<or> Contains d ''localhost''
                           then None
                           else Some \<lparr>Domain = d, ThreatType = ''ads'', Confidence = 0.85,
                                      Source = feedSource tbl feedName,
                                      FirstSeen = now, LastSeen = now, IsActive = True,
                                      Metadata = [(''feed_format'', ''hosts''),
                                                  (''category'', ''advertising'')]\<rparr>)))"





subsection \<open>Sample environments and servers\<close>

definition allFail :: exchange where
  \<comment> \<open>sample environment: every upstream exchange times out\<close>
  "allFail = (\<lambda>upstream d qt. Inl ())"

definition nxFirst :: exchange where
  \<comment> \<open>sample environment: the first upstream answers NXDOMAIN, any other an address\<close>
  "nxFirst = (\<lambda>upstream d qt.
      if upstream = ''1.1.1.1:53'' then Inr (reply RcodeNameError [])
      else Inr (reply RcodeSuccess [d @ ''. A 192.0.2.1'']))"

definition resolves :: exchange where
  \<comment> \<open>sample environment: every upstream answers with one address record\<close>
  "resolves = (\<lambda>upstream d qt. Inr (reply RcodeSuccess [d @ ''. A 192.0.2.1'']))"

definition downServer :: Server where
  "downServer = sampleServer\<lparr>database := downDB\<rparr>"



text \<open>
  A table in which the row \<^verbatim>\<open>evil.example\<close> was inserted forty days before \<open>t0\<close> and
  sighted again, through the upsert, one day before \<open>t0\<close>.
\<close>

definition refreshedDB :: ThreatDB where
  "refreshedDB =
     UpdateThreatEntry
       (snd (BatchInsertThreats emptyDB (t0 - 40 * 24 * Hour)
               [sighting ''evil.example'' ''malware'' 0.90 ''urlhaus'']))
       (t0 - 24 * Hour) (sighting ''evil.example'' ''malware'' 0.90 ''urlhaus'')"

definition flakyServer :: Server where
  \<comment> \<open>the sample server with the queries for two parent suffixes failing\<close>
  "flakyServer =
     sampleServer\<lparr>database :=
       sampleDB\<lparr>unreachable := (\<lambda>d. d = ''cdn.example.com'' \<or> d = ''cdn.doubleclick.net'')\<rparr>\<rparr>"

section \<open>The upstream forwarder\<close>

lemma forwardLoop_find:
  "forwardLoop exch d qt ups =
     (case find (\<lambda>u. settles (exch u d qt)) ups of
        None \<Rightarrow> Inl AllUpstreamsFailed
      | Some u \<Rightarrow> Inr (settledAnswer (exch u d qt)))"
  by (induction ups)
     (auto simp: settles_def settledAnswer_def RcodeSuccess_def RcodeNameError_def
           split: sum.splits)

text \<open>
  Claim C6. The forwarder goes through the upstreams in the configured order and its result
  is decided by the first upstream whose outcome settles the question (\<open>find\<close> returns
  the first element of the list with the property): the answer records of a \<^verbatim>\<open>Success\<close>
  response with at least one record, or the \<^verbatim>\<open>nil\<close> answer of a \<^verbatim>\<open>NameError\<close> response.
  An exchange error and any other response move on to the next upstream. When no upstream
  settles the question the forwarder returns the error, and the handler, for a question that is
  not blocked, answers \<^verbatim>\<open>RcodeServerFailure\<close>.
\<close>

theorem forwarder_first_settling_upstream:
  "forwardToUpstream s exch q d =
     (case find (\<lambda>u. settles (exch u d (Qtype q))) (upstreams s) of
        None \<Rightarrow> Inl AllUpstreamsFailed
      | Some u \<Rightarrow> Inr (settledAnswer (exch u d (Qtype q))))
   \<and> (\<not> fst (fst (shouldBlockDomain s now (ToLower (TrimSuffix (Name q) ''.''))))
        \<and> find (\<lambda>u. settles (exch u (ToLower (TrimSuffix (Name q) ''.'')) (Qtype q)))
             (upstreams s) = None
      \<longrightarrow> Rcode (fst (questionLoop s exch now msg (q # rest))) = RcodeServerFailure)"
proof -
  have fwd: "forwardToUpstream s' exch q d' =
     (case find (\<lambda>u. settles (exch u d' (Qtype q))) (upstreams s') of
        None \<Rightarrow> Inl AllUpstreamsFailed
      | Some u \<Rightarrow> Inr (settledAnswer (exch u d' (Qtype q))))" for s' d'
    unfolding forwardToUpstream_def by (rule forwardLoop_find)
  have srv: "Rcode (fst (questionLoop s exch now msg (q # rest))) = RcodeServerFailure"
    if nb: "\<not> fst (fst (shouldBlockDomain s now (ToLower (TrimSuffix (Name q) ''.''))))"
      and none: "find (\<lambda>u. settles (exch u (ToLower (TrimSuffix (Name q) ''.'')) (Qtype q)))
                   (upstreams s) = None"
  proof -
    obtain b tt err c
      where sb: "shouldBlockDomain s now (ToLower (TrimSuffix (Name q) ''.'')) = ((b, tt, err), c)"
      by (metis prod.exhaust)
    with nb have b: "b = False" by simp
    have "forwardToUpstream (s\<lparr>cache := c\<rparr>) exch q (ToLower (TrimSuffix (Name q) ''.''))
            = Inl AllUpstreamsFailed"
      using none by (simp add: fwd)
    with sb b show ?thesis by simp
  qed
  show ?thesis using fwd srv by blast
qed

theorem forwarder_first_settling_upstream_witness:
  "\<not> fst (fst (shouldBlockDomain sampleServer t0
        (ToLower (TrimSuffix (Name \<lparr>Name = ''example.com.'', Qtype = 1\<rparr>) ''.''))))
   \<and> find (\<lambda>u. settles (allFail u
              (ToLower (TrimSuffix (Name \<lparr>Name = ''example.com.'', Qtype = 1\<rparr>) ''.''))
              (Qtype \<lparr>Name = ''example.com.'', Qtype = 1\<rparr>)))
        (upstreams sampleServer) = None
   \<and> Rcode (fst (questionLoop sampleServer allFail t0 (initialReply (query 7 [''example.com.'']))
        [\<lparr>Name = ''example.com.'', Qtype = 1\<rparr>])) = RcodeServerFailure"
proof -
  have h1: "\<not> fst (fst (shouldBlockDomain sampleServer t0
        (ToLower (TrimSuffix (Name \<lparr>Name = ''example.com.'', Qtype = 1\<rparr>) ''.''))))"
    by code_simp
  have h2: "find (\<lambda>u. settles (allFail u
              (ToLower (TrimSuffix (Name \<lparr>Name = ''example.com.'', Qtype = 1\<rparr>) ''.''))
              (Qtype \<lparr>Name = ''example.com.'', Qtype = 1\<rparr>)))
        (upstreams sampleServer) = None"
    by code_simp
  from h1 h2 forwarder_first_settling_upstream
    [where s = sampleServer and exch = allFail and now = t0
       and q = "\<lparr>Name = ''example.com.'', Qtype = 1\<rparr>" and rest = "[]"
       and msg = "initialReply (query 7 [''example.com.''])"]
  show ?thesis by blast
qed

section \<open>The request handler\<close>



lemma initialReply_fields:
  "Rcode (initialReply r) = RcodeSuccess" "Answer (initialReply r) = []"
  "MsgId (initialReply r) = MsgId r" "Questions (initialReply r) = take 1 (Questions r)"
  by (simp_all add: initialReply_def SetReply_def)

text \<open>
  A \<^verbatim>\<open>nil, nil\<close> result of the forwarder leaves the response as it is: for a request with
  one question that is not blocked the rcode stays the \<^verbatim>\<open>RcodeSuccess\<close> of \<^verbatim>\<open>SetReply\<close>.
\<close>

lemma forwardToUpstream_cache: "forwardToUpstream (s\<lparr>cache := c\<rparr>) exch q d = forwardToUpstream s exch q d"
  by (simp add: forwardToUpstream_def)

lemma nxdomain_leaves_initial_rcode:
  assumes "Questions r = [q]"
    and "\<not> fst (fst (shouldBlockDomain s now (ToLower (TrimSuffix (Name q) ''.''))))"
    and "forwardToUpstream s exch q (ToLower (TrimSuffix (Name q) ''.'')) = Inr None"
  shows "Rcode (fst (handleDNSRequest s exch now r)) = RcodeSuccess"
proof -
  obtain b ty err c
    where sb: "shouldBlockDomain s now (ToLower (TrimSuffix (Name q) ''.'')) = ((b, ty, err), c)"
    by (metis prod.exhaust)
  with assms(2) have "\<not> b" by simp
  then show ?thesis
    using sb assms(1,3)
    by (simp add: handleDNSRequest_def forwardToUpstream_cache initialReply_fields)
qed

text \<open>
  Claim C2. The code at the failing input: the first upstream answers \<^verbatim>\<open>NameError\<close> for
  \<^verbatim>\<open>nonexistent.example.\<close>; the forwarder returns \<^verbatim>\<open>nil, nil\<close>, the handler appends nothing
  and leaves the rcode that \<^verbatim>\<open>SetReply\<close> set, so the client receives \<^verbatim>\<open>RcodeSuccess\<close> with
  an empty answer section, not \<^verbatim>\<open>RcodeNameError\<close>.
\<close>

theorem nxdomain_answered_as_success:
  "forwardToUpstream sampleServer nxFirst \<lparr>Name = ''nonexistent.example.'', Qtype = 1\<rparr>
      ''nonexistent.example'' = Inr None
   \<and> Rcode (fst (handleDNSRequest sampleServer nxFirst t0
        (query 4660 [''nonexistent.example.'']))) = RcodeSuccess
   \<and> Rcode (fst (handleDNSRequest sampleServer nxFirst t0
        (query 4660 [''nonexistent.example.'']))) \<noteq> RcodeNameError
   \<and> Answer (fst (handleDNSRequest sampleServer nxFirst t0
        (query 4660 [''nonexistent.example.'']))) = []"
  by code_simp




section \<open>The classifier: table lookup\<close>

lemma CheckThreatDomain_blocks_iff:
  "(\<exists>ty. CheckThreatDomain tdb now d = Inr ty \<and> ty \<noteq> [])
   \<longleftrightarrow> (\<not> unreachable tdb d
        \<and> (\<exists>r. threat_domains tdb d = Some r \<and> created_at r > now - days30
                \<and> confidence_score r \<ge> 0.70 \<and> threat_type r \<noteq> []))"
  by (auto simp: CheckThreatDomain_def IsThreatDomain_def split: option.splits if_splits)

lemma CheckThreatDomain_row:
  "threat_domains tdb d = Some r \<Longrightarrow> \<not> unreachable tdb d \<Longrightarrow> confidence_score r \<ge> 0.70
   \<Longrightarrow> created_at r > now - days30 \<Longrightarrow> CheckThreatDomain tdb now d = Inr (threat_type r)"
  by (simp add: CheckThreatDomain_def IsThreatDomain_def)

lemma mock_Get_cases:
  "mock_Get m now key = (res, c) \<Longrightarrow>
     closed c = closed m \<and> (\<forall>k. k \<noteq> key \<longrightarrow> data c k = data m k)"
  by (auto simp: mock_Get_def split: if_splits option.splits)

text \<open>
  What the classification does block: a row of \<open>d\<close> created within the last 30 days, with
  confidence at least 0.70 and a non-empty threat type, in a reachable table, unless the cache
  holds \<^verbatim>\<open>"allowed"\<close> for \<open>d\<close>. The lookup hands over a threat type exactly when the table
  is reachable and holds such a row.
\<close>

lemma fresh_confident_row_blocks:
  assumes row: "threat_domains (database s) d = Some r"
    and up: "\<not> unreachable (database s) d"
    and conf: "confidence_score r \<ge> 0.70"
    and fresh: "created_at r > now - days30"
    and ty: "threat_type r \<noteq> []"
    and cached: "fst (mock_Get (cache s) now (cacheKey d)) \<noteq> Inr ''allowed''"
  shows "fst (fst (shouldBlockDomain s now d))
       \<and> (fst (mock_Get (cache s) now (cacheKey d)) = Inr ''blocked''
            \<or> fst (shouldBlockDomain s now d) = (True, threat_type r, None))
       \<and> ((\<exists>ty. CheckThreatDomain (database s) now d = Inr ty \<and> ty \<noteq> [])
            = (\<not> unreachable (database s) d
               \<and> (\<exists>r'. threat_domains (database s) d = Some r' \<and> created_at r' > now - days30
                     \<and> confidence_score r' \<ge> 0.70 \<and> threat_type r' \<noteq> [])))"
proof -
  have chk: "CheckThreatDomain (database s) now d = Inr (threat_type r)"
    using row up conf fresh by (rule CheckThreatDomain_row)
  obtain res c where g: "mock_Get (cache s) now (cacheKey d) = (res, c)"
    by (metis prod.exhaust)
  have tbl: "fst (checkTable (database s) c now d) = (True, threat_type r, None)"
    using chk ty by (simp add: checkTable_def)
  have "fst (fst (shouldBlockDomain s now d))
       \<and> (res = Inr ''blocked'' \<or> fst (shouldBlockDomain s now d) = (True, threat_type r, None))"
    using g cached tbl by (cases res) (auto simp: shouldBlockDomain_def)
  then show ?thesis using g CheckThreatDomain_blocks_iff [of "database s" now d] by simp
qed


text \<open>
  Claim C1. The code at the failing input: the row \<^verbatim>\<open>evil.example\<close>, confidence 0.90, was
  inserted forty days before \<open>t0\<close> and refreshed by the upsert one day before \<open>t0\<close>, so its
  \<^verbatim>\<open>updated_at\<close> is within the last 30 days and the 30-day cleanup, which ages rows by
  \<^verbatim>\<open>updated_at\<close>, keeps it. The lookup ages the row by \<^verbatim>\<open>created_at\<close>, finds nothing, and the
  classification at \<open>t0\<close>, with an empty cache, does not block the domain.
\<close>

theorem refreshed_row_kept_but_not_blocked:
  "map_option created_at (threat_domains refreshedDB ''evil.example'') = Some (t0 - 40 * 24 * Hour)
   \<and> map_option updated_at (threat_domains refreshedDB ''evil.example'') = Some (t0 - 24 * Hour)
   \<and> map_option confidence_score (threat_domains refreshedDB ''evil.example'') = Some 0.90
   \<and> map_option threat_type (threat_domains refreshedDB ''evil.example'') = Some ''malware''
   \<and> t0 - 24 * Hour > t0 - days30
   \<and> fst (CleanupOldThreats refreshedDB t0 days30) = None
   \<and> map_option updated_at
         (threat_domains (snd (CleanupOldThreats refreshedDB t0 days30)) ''evil.example'')
       = Some (t0 - 24 * Hour)
   \<and> IsThreatDomain refreshedDB t0 ''evil.example'' = Inr (False, [], 0)
   \<and> fst (mock_Get (cache (sampleServer\<lparr>database := refreshedDB\<rparr>)) t0 (cacheKey ''evil.example''))
       = Inl (KeyNotFound (cacheKey ''evil.example''))
   \<and> fst (shouldBlockDomain (sampleServer\<lparr>database := refreshedDB\<rparr>) t0 ''evil.example'')
       = (False, [], None)"
  by code_simp

section \<open>The classifier: parent suffixes\<close>

lemma parentLoop_first:
  "i < length ps \<Longrightarrow> CheckThreatDomain tdb now (ps ! i) = Inr ty \<Longrightarrow> ty \<noteq> []
   \<Longrightarrow> (\<forall>j<i. \<forall>t. CheckThreatDomain tdb now (ps ! j) = Inr t \<longrightarrow> t = [])
   \<Longrightarrow> parentLoop tdb now ps = Some ty"
proof (induction ps arbitrary: i)
  case Nil
  then show ?case by simp
next
  case (Cons p ps)
  show ?case
  proof (cases i)
    case 0
    with Cons.prems show ?thesis by simp
  next
    case (Suc k)
    have k: "k < length ps" using Cons.prems(1) Suc by simp
    have at: "CheckThreatDomain tdb now (ps ! k) = Inr ty" using Cons.prems(2) Suc by simp
    have before: "\<forall>j<k. \<forall>t. CheckThreatDomain tdb now (ps ! j) = Inr t \<longrightarrow> t = []"
    proof (intro allI impI)
      fix j t assume "j < k" "CheckThreatDomain tdb now (ps ! j) = Inr t"
      then show "t = []" using Cons.prems(4) Suc by (auto dest: spec [where x = "Suc j"])
    qed
    have rest: "parentLoop tdb now ps = Some ty"
      using Cons.IH [OF k at Cons.prems(3) before] .
    have head: "\<forall>t. CheckThreatDomain tdb now p = Inr t \<longrightarrow> t = []"
      using Cons.prems(4) Suc by (auto dest: spec [where x = 0])
    show ?thesis using rest head by (auto split: sum.splits)
  qed
qed

lemma parentLoop_none:
  "(\<forall>p \<in> set ps. \<forall>t. CheckThreatDomain tdb now p = Inr t \<longrightarrow> t = [])
   \<Longrightarrow> parentLoop tdb now ps = None"
  by (induction ps) (auto split: sum.splits)

lemma parentDomains_nth:
  "i < length (parentDomains d)
   \<Longrightarrow> parentDomains d ! i = Join (drop (Suc i) (Split d (CHR ''.''))) ''.''"
  by (simp add: parentDomains_def Let_def)




section \<open>The classifier: lookup errors\<close>

text \<open>
  Claim C7, as the code has it. With no decision for \<open>d\<close> in the cache: when the lookup of
  \<open>d\<close> itself returns an error, \<^verbatim>\<open>shouldBlockDomain\<close> returns \<open>block = false\<close> together
  with the error at once, the cache as \<^verbatim>\<open>Get\<close> left it (no parent escalation, no cache
  write), and the handler goes on to forward the question upstream. When the lookup of \<open>d\<close>
  finds nothing, a parent suffix whose lookup returns an error is passed over like one whose
  lookup finds nothing, and the escalation goes on with the next suffix: the first suffix
  whose lookup yields a threat type blocks the domain with that type, whatever errors came
  before it; when every parent lookup returns an error or nothing, the verdict is
  \<open>block = false\<close> without error and an open cache gets \<^verbatim>\<open>"allowed"\<close> for thirty minutes.
\<close>

theorem lookup_error_fails_open:
  assumes miss: "fst (mock_Get (cache s) now (cacheKey d)) \<noteq> Inr ''blocked''"
                "fst (mock_Get (cache s) now (cacheKey d)) \<noteq> Inr ''allowed''"
    and d: "d = ToLower (TrimSuffix (Name q) ''.'')"
    and s': "s' = s\<lparr>cache := snd (mock_Get (cache s) now (cacheKey d))\<rparr>"
  shows "(CheckThreatDomain (database s) now d = Inl e \<longrightarrow>
           shouldBlockDomain s now d = ((False, [], Some e), cache s')
           \<and> questionLoop s exch now msg (q # rest) =
               (case forwardToUpstream s' exch q d of
                  Inl fe \<Rightarrow> (msg\<lparr>Rcode := RcodeServerFailure\<rparr>, s')
                | Inr None \<Rightarrow> questionLoop s' exch now msg rest
                | Inr (Some answer) \<Rightarrow>
                    questionLoop s' exch now (msg\<lparr>Answer := Answer msg @ answer\<rparr>) rest))
       \<and> (CheckThreatDomain (database s) now d = Inr []
            \<and> i < length (parentDomains d)
            \<and> CheckThreatDomain (database s) now (parentDomains d ! i) = Inr ty \<and> ty \<noteq> []
            \<and> (\<forall>j<i. CheckThreatDomain (database s) now (parentDomains d ! j) = Inr []
                      \<or> (\<exists>e'. CheckThreatDomain (database s) now (parentDomains d ! j) = Inl e'))
          \<longrightarrow> fst (shouldBlockDomain s now d) = (True, ty, None))
       \<and> (CheckThreatDomain (database s) now d = Inr []
            \<and> (\<forall>p \<in> set (parentDomains d).
                  CheckThreatDomain (database s) now p = Inr []
                  \<or> (\<exists>e'. CheckThreatDomain (database s) now p = Inl e'))
          \<longrightarrow> fst (shouldBlockDomain s now d) = (False, [], None)
              \<and> (\<not> closed (cache s) \<longrightarrow>
                   data (snd (shouldBlockDomain s now d)) (cacheKey d)
                     = Some \<lparr>val = ''allowed'', expiration = now + 30 * Minute\<rparr>))"
proof -
  obtain res c where g: "mock_Get (cache s) now (cacheKey d) = (res, c)"
    by (metis prod.exhaust)
  have c: "closed c = closed (cache s)"
    using mock_Get_cases [OF g] by simp
  have sb: "shouldBlockDomain s now d = checkTable (database s) c now d"
    using g miss by (cases res) (auto simp: shouldBlockDomain_def)
  have cs: "cache s' = c" using s' g by simp
  have A: "shouldBlockDomain s now d = ((False, [], Some e), cache s')
           \<and> questionLoop s exch now msg (q # rest) =
               (case forwardToUpstream s' exch q d of
                  Inl fe \<Rightarrow> (msg\<lparr>Rcode := RcodeServerFailure\<rparr>, s')
                | Inr None \<Rightarrow> questionLoop s' exch now msg rest
                | Inr (Some answer) \<Rightarrow>
                    questionLoop s' exch now (msg\<lparr>Answer := Answer msg @ answer\<rparr>) rest)"
    if err: "CheckThreatDomain (database s) now d = Inl e"
  proof -
    have r: "shouldBlockDomain s now d = ((False, [], Some e), c)"
      using sb err by (simp add: checkTable_def)
    have s'c: "s' = s\<lparr>cache := c\<rparr>" using s' g by simp
    have "questionLoop s exch now msg (q # rest) =
               (case forwardToUpstream s' exch q d of
                  Inl fe \<Rightarrow> (msg\<lparr>Rcode := RcodeServerFailure\<rparr>, s')
                | Inr None \<Rightarrow> questionLoop s' exch now msg rest
                | Inr (Some answer) \<Rightarrow>
                    questionLoop s' exch now (msg\<lparr>Answer := Answer msg @ answer\<rparr>) rest)"
      unfolding s'c using r d by (simp add: Let_def)
    with r cs show ?thesis by simp
  qed
  have M: "fst (shouldBlockDomain s now d) = (True, ty, None)"
    if own: "CheckThreatDomain (database s) now d = Inr []"
      and i: "i < length (parentDomains d)"
      and hit: "CheckThreatDomain (database s) now (parentDomains d ! i) = Inr ty" "ty \<noteq> []"
      and before: "\<forall>j<i. CheckThreatDomain (database s) now (parentDomains d ! j) = Inr []
                      \<or> (\<exists>e'. CheckThreatDomain (database s) now (parentDomains d ! j) = Inl e')"
  proof -
    have "\<forall>j<i. \<forall>t. CheckThreatDomain (database s) now (parentDomains d ! j) = Inr t \<longrightarrow> t = []"
      using before by fastforce
    then have pl: "parentLoop (database s) now (parentDomains d) = Some ty"
      using i hit by (intro parentLoop_first) auto
    show ?thesis using sb own pl by (simp add: checkTable_def)
  qed
  have B: "fst (shouldBlockDomain s now d) = (False, [], None)
              \<and> (\<not> closed (cache s) \<longrightarrow>
                   data (snd (shouldBlockDomain s now d)) (cacheKey d)
                     = Some \<lparr>val = ''allowed'', expiration = now + 30 * Minute\<rparr>)"
    if own: "CheckThreatDomain (database s) now d = Inr []"
      and par: "\<forall>p \<in> set (parentDomains d).
                  CheckThreatDomain (database s) now p = Inr []
                  \<or> (\<exists>e'. CheckThreatDomain (database s) now p = Inl e')"
  proof -
    have "\<forall>p \<in> set (parentDomains d). \<forall>t. CheckThreatDomain (database s) now p = Inr t \<longrightarrow> t = []"
      using par by fastforce
    then have pl: "parentLoop (database s) now (parentDomains d) = None"
      by (rule parentLoop_none)
    have ct: "checkTable (database s) c now d
                = ((False, [], None), snd (mock_Set c now (cacheKey d) ''allowed'' (30 * Minute)))"
      using own pl by (simp add: checkTable_def)
    have set: "\<not> closed (cache s) \<Longrightarrow>
                 data (snd (mock_Set c now (cacheKey d) ''allowed'' (30 * Minute))) (cacheKey d)
                   = Some \<lparr>val = ''allowed'', expiration = now + 30 * Minute\<rparr>"
      using c by (simp add: mock_Set_def Add_def Minute_def Second_def)
    show ?thesis using sb ct set by simp
  qed
  show ?thesis using A M B by blast
qed

theorem lookup_error_fails_open_witness:
  "fst (mock_Get (cache downServer) t0 (cacheKey ''tracker.cdn.doubleclick.net'')) \<noteq> Inr ''blocked''
   \<and> fst (mock_Get (cache downServer) t0 (cacheKey ''tracker.cdn.doubleclick.net'')) \<noteq> Inr ''allowed''
   \<and> ''tracker.cdn.doubleclick.net''
       = ToLower (TrimSuffix (Name \<lparr>Name = ''Tracker.cdn.doubleclick.net.'', Qtype = 1\<rparr>) ''.'')
   \<and> CheckThreatDomain (database downServer) t0 ''tracker.cdn.doubleclick.net'' = Inl QueryFailed
   \<and> fst (shouldBlockDomain downServer t0 ''tracker.cdn.doubleclick.net'') = (False, [], Some QueryFailed)
   \<and> Answer (fst (questionLoop downServer resolves t0
        (initialReply (query 9 [''Tracker.cdn.doubleclick.net.'']))
        [\<lparr>Name = ''Tracker.cdn.doubleclick.net.'', Qtype = 1\<rparr>]))
       = [''tracker.cdn.doubleclick.net. A 192.0.2.1'']
   \<and> fst (mock_Get (cache flakyServer) t0 (cacheKey ''tracker.cdn.doubleclick.net'')) \<noteq> Inr ''blocked''
   \<and> fst (mock_Get (cache flakyServer) t0 (cacheKey ''tracker.cdn.doubleclick.net'')) \<noteq> Inr ''allowed''
   \<and> CheckThreatDomain (database flakyServer) t0 ''tracker.cdn.doubleclick.net'' = Inr []
   \<and> parentDomains ''tracker.cdn.doubleclick.net'' = [''cdn.doubleclick.net'', ''doubleclick.net'', ''net'']
   \<and> CheckThreatDomain (database flakyServer) t0 ''cdn.doubleclick.net'' = Inl QueryFailed
   \<and> CheckThreatDomain (database flakyServer) t0 ''doubleclick.net'' = Inr ''ads''
   \<and> fst (shouldBlockDomain flakyServer t0 ''tracker.cdn.doubleclick.net'') = (True, ''ads'', None)
   \<and> fst (mock_Get (cache flakyServer) t0 (cacheKey ''www.cdn.example.com'')) \<noteq> Inr ''blocked''
   \<and> fst (mock_Get (cache flakyServer) t0 (cacheKey ''www.cdn.example.com'')) \<noteq> Inr ''allowed''
   \<and> CheckThreatDomain (database flakyServer) t0 ''www.cdn.example.com'' = Inr []
   \<and> parentDomains ''www.cdn.example.com'' = [''cdn.example.com'', ''example.com'', ''com'']
   \<and> CheckThreatDomain (database flakyServer) t0 ''cdn.example.com'' = Inl QueryFailed
   \<and> CheckThreatDomain (database flakyServer) t0 ''example.com'' = Inr []
   \<and> CheckThreatDomain (database flakyServer) t0 ''com'' = Inr []
   \<and> \<not> closed (cache flakyServer)
   \<and> fst (shouldBlockDomain flakyServer t0 ''www.cdn.example.com'') = (False, [], None)
   \<and> data (snd (shouldBlockDomain flakyServer t0 ''www.cdn.example.com'')) (cacheKey ''www.cdn.example.com'')
       = Some \<lparr>val = ''allowed'', expiration = t0 + 30 * Minute\<rparr>"
proof -
  let ?d = "''tracker.cdn.doubleclick.net''"
  let ?q = "\<lparr>Name = ''Tracker.cdn.doubleclick.net.'', Qtype = 1\<rparr>"
  let ?msg = "initialReply (query 9 [''Tracker.cdn.doubleclick.net.''])"
  let ?s' = "downServer\<lparr>cache := snd (mock_Get (cache downServer) t0 (cacheKey ?d))\<rparr>"
  have a1: "fst (mock_Get (cache downServer) t0 (cacheKey ?d)) \<noteq> Inr ''blocked''"
    by (simp add: downServer_def sampleServer_def NewMockRedisClient_def mock_Get_def)
  have a2: "fst (mock_Get (cache downServer) t0 (cacheKey ?d)) \<noteq> Inr ''allowed''"
    by (simp add: downServer_def sampleServer_def NewMockRedisClient_def mock_Get_def)
  have a3: "?d = ToLower (TrimSuffix (Name ?q) ''.'')" by code_simp
  have a4: "CheckThreatDomain (database downServer) t0 ?d = Inl QueryFailed" by code_simp
  note T = lookup_error_fails_open [OF a1 a2 a3 refl, of QueryFailed resolves ?msg "[]"]
  have fw: "forwardToUpstream ?s' resolves ?q ?d
              = Inr (Some [''tracker.cdn.doubleclick.net. A 192.0.2.1''])"
    by code_simp
  have c1: "fst (shouldBlockDomain downServer t0 ?d) = (False, [], Some QueryFailed)"
    using T a4 by simp
  have c2: "questionLoop downServer resolves t0 ?msg [?q]
              = questionLoop ?s' resolves t0
                  (?msg\<lparr>Answer := Answer ?msg @ [''tracker.cdn.doubleclick.net. A 192.0.2.1'']\<rparr>) []"
    using T a4 fw by simp
  have c3: "Answer (fst (questionLoop downServer resolves t0 ?msg [?q]))
              = [''tracker.cdn.doubleclick.net. A 192.0.2.1'']"
    unfolding c2 by (simp add: initialReply_fields)
  have m1: "fst (mock_Get (cache flakyServer) t0 (cacheKey ?d)) \<noteq> Inr ''blocked''"
    by (simp add: flakyServer_def sampleServer_def NewMockRedisClient_def mock_Get_def)
  have m2: "fst (mock_Get (cache flakyServer) t0 (cacheKey ?d)) \<noteq> Inr ''allowed''"
    by (simp add: flakyServer_def sampleServer_def NewMockRedisClient_def mock_Get_def)
  have m4: "CheckThreatDomain (database flakyServer) t0 ?d = Inr []" by code_simp
  have qs: "parentDomains ?d = [''cdn.doubleclick.net'', ''doubleclick.net'', ''net'']"
    by code_simp
  have w1: "CheckThreatDomain (database flakyServer) t0 ''cdn.doubleclick.net'' = Inl QueryFailed"
    by code_simp
  have w2: "CheckThreatDomain (database flakyServer) t0 ''doubleclick.net'' = Inr ''ads''"
    by code_simp
  have m5: "1 < length (parentDomains ?d)" by (simp add: qs)
  have m6: "CheckThreatDomain (database flakyServer) t0 (parentDomains ?d ! 1) = Inr ''ads''"
    using w2 by (simp add: qs)
  have m7: "\<forall>j<1. CheckThreatDomain (database flakyServer) t0 (parentDomains ?d ! j) = Inr []
               \<or> (\<exists>e'. CheckThreatDomain (database flakyServer) t0 (parentDomains ?d ! j) = Inl e')"
    using w1 by (simp add: qs)
  note V = lookup_error_fails_open [OF m1 m2 a3 refl, of QueryFailed resolves ?msg "[]" 1 "''ads''"]
  have e1: "fst (shouldBlockDomain flakyServer t0 ?d) = (True, ''ads'', None)"
    using V m4 m5 m6 m7 by blast
  let ?e = "''www.cdn.example.com''"
  have b1: "fst (mock_Get (cache flakyServer) t0 (cacheKey ?e)) \<noteq> Inr ''blocked''"
    by (simp add: flakyServer_def sampleServer_def NewMockRedisClient_def mock_Get_def)
  have b2: "fst (mock_Get (cache flakyServer) t0 (cacheKey ?e)) \<noteq> Inr ''allowed''"
    by (simp add: flakyServer_def sampleServer_def NewMockRedisClient_def mock_Get_def)
  have b3: "?e = ToLower (TrimSuffix (Name \<lparr>Name = ''www.cdn.example.com.'', Qtype = 1\<rparr>) ''.'')"
    by code_simp
  have b4: "CheckThreatDomain (database flakyServer) t0 ?e = Inr []" by code_simp
  have ps: "parentDomains ?e = [''cdn.example.com'', ''example.com'', ''com'']" by code_simp
  have v1: "CheckThreatDomain (database flakyServer) t0 ''cdn.example.com'' = Inl QueryFailed"
    by code_simp
  have v2: "CheckThreatDomain (database flakyServer) t0 ''example.com'' = Inr []" by code_simp
  have v3: "CheckThreatDomain (database flakyServer) t0 ''com'' = Inr []" by code_simp
  have b5: "\<forall>p \<in> set (parentDomains ?e).
              CheckThreatDomain (database flakyServer) t0 p = Inr []
              \<or> (\<exists>e'. CheckThreatDomain (database flakyServer) t0 p = Inl e')"
    using v1 v2 v3 by (simp add: ps)
  have b6: "\<not> closed (cache flakyServer)"
    by (simp add: flakyServer_def sampleServer_def NewMockRedisClient_def)
  note U = lookup_error_fails_open [OF b1 b2 b3 refl, of QueryFailed resolves ?msg "[]"]
  have d1: "fst (shouldBlockDomain flakyServer t0 ?e) = (False, [], None)"
    using U b4 b5 by blast
  have d2: "data (snd (shouldBlockDomain flakyServer t0 ?e)) (cacheKey ?e)
       = Some \<lparr>val = ''allowed'', expiration = t0 + 30 * Minute\<rparr>"
    using U b4 b5 b6 by blast
  show ?thesis
    using a1 a2 a3 a4 c1 c3 m1 m2 m4 qs w1 w2 e1 b1 b2 b4 ps v1 v2 v3 b6 d1 d2 by blast
qed

text \<open>
  Claim C7 as stated fails: with the table unreachable and an empty cache the classification of
  \<^verbatim>\<open>tracker.cdn.doubleclick.net\<close> returns the error with \<open>block = false\<close> and writes no
  \<^verbatim>\<open>"allowed"\<close> entry.
\<close>

theorem lookup_error_skips_escalation_and_cache_write:
  "CheckThreatDomain (database downServer) t0 ''tracker.cdn.doubleclick.net'' = Inl QueryFailed
   \<and> fst (mock_Get (cache downServer) t0 (cacheKey ''tracker.cdn.doubleclick.net'')) = Inl (KeyNotFound (cacheKey ''tracker.cdn.doubleclick.net''))
   \<and> fst (shouldBlockDomain downServer t0 ''tracker.cdn.doubleclick.net'') = (False, [], Some QueryFailed)
   \<and> data (snd (shouldBlockDomain downServer t0 ''tracker.cdn.doubleclick.net''))
        (cacheKey ''tracker.cdn.doubleclick.net'') = None"
  by code_simp

section \<open>Feed scheduling\<close>

lemma UpdateAllFeeds_keeps_manager: "snd (UpdateAllFeeds fm upd now) = fm"
  by (simp add: UpdateAllFeeds_def)

lemma UpdateAllAdBlockFeeds_keeps_manager: "snd (UpdateAllAdBlockFeeds abm upd now) = abm"
  by (simp add: UpdateAllAdBlockFeeds_def)

text \<open>
  Claim C8. The code at the failing input: a cycle at \<open>t0\<close> fetches URLhaus and OpenPhish
  successfully; the assignment to the loop variable leaves \<^verbatim>\<open>LastUpdated\<close> of every feed of
  the manager at the zero time; the cycle one second later, well inside both update intervals,
  fetches both feeds again.
\<close>

theorem back_to_back_cycles_refetch:
  "snd (fst (UpdateAllFeeds NewFeedManager fetchOK t0)) = [''URLhaus'', ''OpenPhish'']
   \<and> map LastUpdated (feeds (snd (UpdateAllFeeds NewFeedManager fetchOK t0))) = [0, 0, 0]
   \<and> snd (fst (UpdateAllFeeds (snd (UpdateAllFeeds NewFeedManager fetchOK t0)) fetchOK (t0 + Second)))
       = [''URLhaus'', ''OpenPhish'']
   \<and> Since (t0 + Second) t0 < 5 * Minute"
  by code_simp

section \<open>Cache expiry\<close>

lemma mock_Get_after_expiry:
  "\<not> closed m \<Longrightarrow> data m key = Some v \<Longrightarrow> expiration v \<noteq> 0 \<Longrightarrow> expiration v < now
   \<Longrightarrow> fst (mock_Get m now key) = Inl (KeyNotFound key) \<and> data (snd (mock_Get m now key)) key = None"
  by (simp add: mock_Get_def IsZero_def After_def)

lemma mock_Get_at_expiry:
  "\<not> closed m \<Longrightarrow> data m key = Some v \<Longrightarrow> expiration v = now
   \<Longrightarrow> mock_Get m now key = (Inr (val v), m)"
  by (simp add: mock_Get_def IsZero_def After_def)

text \<open>
  Claim C9. The code at the failing input: an entry set at \<open>t0\<close> with a one-hour TTL and
  read at exactly \<open>t0 + Hour\<close>. \<^verbatim>\<open>Get\<close> tests \<^verbatim>\<open>time.Now().After(expiration)\<close>, returns the
  value and keeps the entry; at the same instant \<^verbatim>\<open>GetTTL\<close> reports the key as expired and
  deletes it, and \<^verbatim>\<open>SetNX\<close> takes the key as free. One nanosecond later \<^verbatim>\<open>Get\<close> reports
  the key as not found.
\<close>

theorem get_at_expiry_instant_finds_entry:
  "data (snd (mock_Set NewMockRedisClient t0 ''domain:ads.example'' ''blocked'' Hour)) ''domain:ads.example''
     = Some \<lparr>val = ''blocked'', expiration = t0 + Hour\<rparr>
   \<and> fst (mock_Get (snd (mock_Set NewMockRedisClient t0 ''domain:ads.example'' ''blocked'' Hour))
        (t0 + Hour) ''domain:ads.example'') = Inr ''blocked''
   \<and> data (snd (mock_Get (snd (mock_Set NewMockRedisClient t0 ''domain:ads.example'' ''blocked'' Hour))
        (t0 + Hour) ''domain:ads.example'')) ''domain:ads.example''
       = Some \<lparr>val = ''blocked'', expiration = t0 + Hour\<rparr>
   \<and> fst (mock_GetTTL (snd (mock_Set NewMockRedisClient t0 ''domain:ads.example'' ''blocked'' Hour))
        (t0 + Hour) ''domain:ads.example'') = Inr (- 2 * Second)
   \<and> data (snd (mock_GetTTL (snd (mock_Set NewMockRedisClient t0 ''domain:ads.example'' ''blocked'' Hour))
        (t0 + Hour) ''domain:ads.example'')) ''domain:ads.example'' = None
   \<and> fst (mock_SetNX (snd (mock_Set NewMockRedisClient t0 ''domain:ads.example'' ''blocked'' Hour))
        (t0 + Hour) ''domain:ads.example'' ''allowed'' Hour) = Inr True
   \<and> fst (mock_Get (snd (mock_Set NewMockRedisClient t0 ''domain:ads.example'' ''blocked'' Hour))
        (t0 + Hour + 1) ''domain:ads.example'') = Inl (KeyNotFound ''domain:ads.example'')"
  by code_simp

section \<open>Bulk insert into the threat table\<close>

text \<open>
  With no failing step the bulk insert fails exactly when a domain of the batch is repeated in
  it or already in the table; a lost connection fails it at \<^verbatim>\<open>BeginTx\<close>; and a failed batch
  leaves the table as it was.
\<close>

lemma copyIn_fails_iff:
  "(copyIn tbl rows = Inl UniqueViolation)
   \<longleftrightarrow> \<not> (distinct (map domain rows) \<and> set (map domain rows) \<inter> dom tbl = {})"
  by (induction rows arbitrary: tbl) (auto split: option.splits)

lemma copyIn_error: "copyIn tbl rows = Inl e \<Longrightarrow> e = UniqueViolation"
  by (induction rows arbitrary: tbl) (auto split: option.splits)

lemma BatchInsertThreats_error_keeps_table:
  "fst (BatchInsertThreats tdb now entries) = Some e \<Longrightarrow> snd (BatchInsertThreats tdb now entries) = tdb"
  by (auto simp: BatchInsertThreats_def Let_def split: sum.splits if_splits)

lemma BatchInsertThreats_no_fault_fails_iff:
  assumes "\<And>st. \<not> faults tdb st"
  shows "fst (BatchInsertThreats tdb now entries) \<noteq> None
   \<longleftrightarrow> \<not> (distinct (map Domain entries) \<and> set (map Domain entries) \<inter> dom (threat_domains tdb) = {})"
proof -
  have m: "map domain (map (rowOf now) entries) = map Domain entries"
    by (simp add: rowOf_def comp_def)
  have f: "filter (\<lambda>entry. \<not> faults tdb (StepRow (Domain entry))) entries = entries"
    using assms by simp
  show ?thesis
  proof (cases "entries = []")
    case True
    then show ?thesis by (simp add: BatchInsertThreats_def)
  next
    case False
    then show ?thesis
      using copyIn_fails_iff [of "threat_domains tdb" "map (rowOf now) entries"] copyIn_error assms
      unfolding m
      by (auto simp: BatchInsertThreats_def Let_def f split: sum.splits)
  qed
qed

lemma BatchInsertThreats_lost_connection:
  "entries \<noteq> [] \<Longrightarrow> faults tdb StepBegin
   \<Longrightarrow> BatchInsertThreats tdb now entries = (Some (StepFailed StepBegin), tdb)"
  by (simp add: BatchInsertThreats_def)

lemma UpdateThreatEntry_confidence:
  "confidence_score (the (threat_domains (UpdateThreatEntry tdb now entry) (Domain entry)))
     = (case threat_domains tdb (Domain entry) of
          None \<Rightarrow> Confidence entry
        | Some old \<Rightarrow> max (confidence_score old) (Confidence entry))"
  by (simp add: UpdateThreatEntry_def rowOf_def split: option.splits)

lemma UpdateThreatEntry_never_lowers:
  "threat_domains tdb d = Some old
   \<Longrightarrow> \<exists>r. threat_domains (UpdateThreatEntry tdb now entry) d = Some r
         \<and> confidence_score old \<le> confidence_score r"
  by (auto simp: UpdateThreatEntry_def split: option.splits)

text \<open>
  Claim C3. The code at the failing inputs: a batch with two entries for \<^verbatim>\<open>evil.example\<close>
  (confidence 0.80 and 0.90) into an empty table fails as a whole and stores no row; a second
  batch for a domain stored by a first one fails and leaves the stored confidence 0.80. The
  single-entry upsert \<^verbatim>\<open>UpdateThreatEntry\<close>, which the updater does not call, merges the same
  two entries to 0.90.
\<close>

theorem batch_insert_rejects_duplicate_domain:
  "fst (BatchInsertThreats emptyDB t0
         [sighting ''evil.example'' ''malware'' 0.80 ''urlhaus'',
          sighting ''evil.example'' ''phishing'' 0.90 ''openphish'']) = Some UniqueViolation
   \<and> threat_domains (snd (BatchInsertThreats emptyDB t0
         [sighting ''evil.example'' ''malware'' 0.80 ''urlhaus'',
          sighting ''evil.example'' ''phishing'' 0.90 ''openphish''])) ''evil.example'' = None
   \<and> fst (BatchInsertThreats emptyDB t0 [sighting ''evil.example'' ''malware'' 0.80 ''urlhaus'']) = None
   \<and> fst (BatchInsertThreats
         (snd (BatchInsertThreats emptyDB t0 [sighting ''evil.example'' ''malware'' 0.80 ''urlhaus'']))
         (t0 + 5 * Minute) [sighting ''evil.example'' ''phishing'' 0.90 ''openphish'']) = Some UniqueViolation
   \<and> confidence_score (the (threat_domains (snd (BatchInsertThreats
         (snd (BatchInsertThreats emptyDB t0 [sighting ''evil.example'' ''malware'' 0.80 ''urlhaus'']))
         (t0 + 5 * Minute) [sighting ''evil.example'' ''phishing'' 0.90 ''openphish''])) ''evil.example'')) = 0.80
   \<and> confidence_score (the (threat_domains
         (UpdateThreatEntry (UpdateThreatEntry emptyDB t0 (sighting ''evil.example'' ''malware'' 0.80 ''urlhaus''))
            t0 (sighting ''evil.example'' ''phishing'' 0.90 ''openphish'')) ''evil.example'')) = 0.90"
  by code_simp

section \<open>The hosts-format parser\<close>







text \<open>
  Lines that are not ASCII: a line led by a no-break space before \<^verbatim>\<open>#\<close> is a comment, and a
  Kelvin sign lowercases to the letter \<^verbatim>\<open>k\<close> of a valid domain.
\<close>

lemma hostsLine_beyond_ascii:
  "hostsLine caseFragment ''StevenBlack Hosts'' t0 ([CHR 0xC2, CHR 0xA0] @ ''# comment'') = None"
  "map_option Domain (hostsLine caseFragment ''StevenBlack Hosts'' t0
       (''0.0.0.0 '' @ [CHR 0xE2, CHR 0x84, CHR 0xAA] @ ''elvin.example'')) = Some ''kelvin.example''"
  by code_simp+



end
